theory Spec2Isabelle
  imports Complex_Main "HOL-Library.Char_ord" "HOL-Library.List_Lexorder" "HOL-Library.AList"
begin

section \<open>Column data\<close>

text \<open>
  A column of a catalog is a dask array: an immutable, deferred description of a per-rank
  array. Every dask array is modelled by the array it evaluates to, element type included
  (the numpy dtype is the constructor). Only the leading dimension matters to the catalog
  code (\<^verbatim>\<open>len\<close>, boolean selection of rows), so an array is the list of its rows.
  Python's unbounded integers are \<open>int\<close>; floats are only stored and repeated, never
  computed with, and are carried as \<open>real\<close>.
\<close>

datatype scalar = BoolS bool | IntS int | FloatS real

datatype ndarray = BoolArr "bool list" | IntArr "int list" | FloatArr "real list"

text \<open>\<^verbatim>\<open>len(array)\<close>.\<close>

fun len :: "ndarray \<Rightarrow> nat" where
  "len (BoolArr xs) = length xs"
| "len (IntArr xs) = length xs"
| "len (FloatArr xs) = length xs"

text \<open>The exceptions raised in \<^verbatim>\<open>nbodykit/base/catalog.py\<close>, one constructor for each
  \<^verbatim>\<open>raise\<close> or \<^verbatim>\<open>assert\<close> of the modelled functions, with the name the specification gives
  to the failure.\<close>

datatype error =
    ValueError_slice_length nat nat
      \<comment> \<open>\<^verbatim>\<open>ValueError("slice index has length %d; should be %d")\<close>: LengthMismatch\<close>
  | ValueError_not_boolean
      \<comment> \<open>\<^verbatim>\<open>ValueError("index used to slice CatalogSource must be boolean and array-like")\<close>:
          TypeMismatch\<close>
  | KeyError_column string
      \<comment> \<open>\<^verbatim>\<open>KeyError("column `%s` is not defined in this source; ...")\<close>: UnknownColumn\<close>
  | KeyError_invalid_columns "string list"
      \<comment> \<open>\<^verbatim>\<open>KeyError("cannot select subset of columns ... due to invalid columns: %s")\<close>\<close>
  | AssertionError_scalar_size
      \<comment> \<open>\<^verbatim>\<open>assert self.size is not NotImplemented, "size is not implemented! cannot set
          scalar array"\<close>: SizeRequired\<close>
  | AssertionError_length nat
      \<comment> \<open>\<^verbatim>\<open>assert len(value) == self.size, "error setting column, data must be array of
          size %d"\<close>: LengthMismatch\<close>
  | AttributeError_column string
      \<comment> \<open>\<^verbatim>\<open>AttributeError("unable to find column '%s' for '%s'")\<close>: ColumnNotFound\<close>
  | TypeError_len
      \<comment> \<open>\<^verbatim>\<open>len(parent)\<close> when \<^verbatim>\<open>__len__\<close> returns \<^verbatim>\<open>NotImplemented\<close>\<close>
  | IndexError_mask nat nat
      \<comment> \<open>a boolean mask applied to an array of another length\<close>
  | ValueError_copy
      \<comment> \<open>\<^verbatim>\<open>ValueError("cannot copy a CatalogSource that does not have `size` implemented")\<close>\<close>
  | TypeError_multiple_values
      \<comment> \<open>\<^verbatim>\<open>TypeError("_from_columns() got multiple values for argument ...")\<close>, raised by
          the call itself\<close>
  | ColumnError string
      \<comment> \<open>whatever exception the column function of this name raises; the catalog code
          catches none\<close>

text \<open>
  Modelled from the spec: \<^verbatim>\<open>ConstantArray\<close> of \<^verbatim>\<open>nbodykit.transform\<close>, which is imported by
  \<^verbatim>\<open>catalog.py\<close> and whose source is not part of this development. The specification
  describes it as the broadcast of a scalar "to a constant array of that length": the scalar
  repeated \<open>size\<close> times, with the scalar's element type.
\<close>

fun ConstantArray :: "scalar \<Rightarrow> nat \<Rightarrow> ndarray" where
  "ConstantArray (BoolS b) n = BoolArr (replicate n b)"
| "ConstantArray (IntS i) n = IntArr (replicate n i)"
| "ConstantArray (FloatS x) n = FloatArr (replicate n x)"

text \<open>
  Modelled from the spec: the call \<^verbatim>\<open>ConstantArray(value, self.size)\<close> where \<^verbatim>\<open>self.size\<close> may be
  \<^verbatim>\<open>NotImplemented\<close>. The specification builds a constant array "of that length" for a
  known local size only, and a lazy array handle is "a not-yet-computed array of known
  shape": there is no constant array for the size \<^verbatim>\<open>NotImplemented\<close>, and the call raises
  (\<open>None\<close>). \<^verbatim>\<open>CatalogSource.__setitem__\<close> guards its own call with an assertion for this
  reason: "size is not implemented! cannot set scalar array".
\<close>

definition ConstantArray_sized :: "scalar \<Rightarrow> nat option \<Rightarrow> ndarray option" where
  "ConstantArray_sized v sz = map_option (ConstantArray v) sz"

text \<open>
  \<^verbatim>\<open>numpy.array(list)\<close> on a list of scalars: the common element type of the list. An empty
  list gives a float array; booleans are promoted to integers and integers to floats as
  soon as a wider element is present. (An integer beyond 64 bits makes numpy fall back to
  an array of objects; like the integer array here, it is not a boolean array.)
\<close>

fun as_int :: "scalar \<Rightarrow> int" where
  "as_int (BoolS b) = (if b then 1 else 0)"
| "as_int (IntS i) = i"
| "as_int (FloatS x) = \<lfloor>x\<rfloor>"

fun as_float :: "scalar \<Rightarrow> real" where
  "as_float (BoolS b) = (if b then 1 else 0)"
| "as_float (IntS i) = of_int i"
| "as_float (FloatS x) = x"

fun is_bool :: "scalar \<Rightarrow> bool" where
  "is_bool (BoolS b) = True"
| "is_bool _ = False"

fun is_float :: "scalar \<Rightarrow> bool" where
  "is_float (FloatS x) = True"
| "is_float _ = False"

fun the_bool :: "scalar \<Rightarrow> bool" where
  "the_bool (BoolS b) = b"
| "the_bool (IntS i) = (i \<noteq> 0)"
| "the_bool (FloatS x) = (x \<noteq> 0)"

definition numpy_array :: "scalar list \<Rightarrow> ndarray" where
  "numpy_array xs =
     (if xs = [] \<or> list_ex is_float xs then FloatArr (map as_float xs)
      else if list_all is_bool xs then BoolArr (map the_bool xs)
      else IntArr (map as_int xs))"

text \<open>
  \<^verbatim>\<open>array[index]\<close> with a concrete boolean mask: the rows at the \<^verbatim>\<open>True\<close> positions, in
  their original order. The mask must be as long as the array (\<^verbatim>\<open>IndexError\<close> otherwise).
\<close>

fun select_rows :: "'a list \<Rightarrow> bool list \<Rightarrow> 'a list" where
  "select_rows (x # xs) (b # bs) = (if b then x # select_rows xs bs else select_rows xs bs)"
| "select_rows _ _ = []"

definition getitem_mask :: "ndarray \<Rightarrow> bool list \<Rightarrow> error + ndarray" where
  "getitem_mask a m =
     (if len a \<noteq> length m then Inl (IndexError_mask (length m) (len a))
      else Inr (case a of
                  BoolArr xs \<Rightarrow> BoolArr (select_rows xs m)
                | IntArr xs \<Rightarrow> IntArr (select_rows xs m)
                | FloatArr xs \<Rightarrow> FloatArr (select_rows xs m)))"

text \<open>\<^verbatim>\<open>index.sum()\<close> of a boolean array: the number of \<^verbatim>\<open>True\<close> entries.\<close>

definition bool_sum :: "bool list \<Rightarrow> nat" where
  "bool_sum m = length (filter (\<lambda>b. b) m)"

section \<open>Classes and their hard-coded columns\<close>

text \<open>
  \<^verbatim>\<open>find_columns\<close> and \<^verbatim>\<open>find_column\<close> inspect a class reflectively: the items of
  \<^verbatim>\<open>cls.__dict__\<close> in order, then \<^verbatim>\<open>cls.__bases__\<close> in order, recursively. A class is
  modelled by exactly these two lists. A value of the class dictionary either carries a
  \<^verbatim>\<open>column_name\<close> attribute (it was decorated with \<^verbatim>\<open>@column\<close>, which stores the function's
  own name or the name given) together with the function, or it does not. Column names
  are strings.

  A column function is called with the catalog as \<^verbatim>\<open>self\<close> and returns the column, or
  raises (\<open>None\<close>). The column functions of \<^verbatim>\<open>catalog.py\<close> read \<^verbatim>\<open>self.size\<close> only, and
  that is what a provider receives here.
\<close>

type_synonym provider = "nat option \<Rightarrow> ndarray option"

datatype member = Attribute | Column string provider

datatype pyclass = PyClass (class_dict: "(string \<times> member) list") (class_bases: "pyclass list")

text \<open>The first loop of \<^verbatim>\<open>find_columns\<close>: the \<^verbatim>\<open>column_name\<close> of every tagged value.\<close>

fun dict_columns :: "(string \<times> member) list \<Rightarrow> string list" where
  "dict_columns [] = []"
| "dict_columns ((key, Attribute) # items) = dict_columns items"
| "dict_columns ((key, Column name getter) # items) = name # dict_columns items"

fun find_columns :: "pyclass \<Rightarrow> string list" where
  "find_columns (PyClass d bs) =
     sort (remdups (dict_columns d @ concat (map find_columns bs)))"

text \<open>The first loop of \<^verbatim>\<open>find_column\<close>: the first tagged value with the requested name.\<close>

fun dict_column :: "(string \<times> member) list \<Rightarrow> string \<Rightarrow> provider option" where
  "dict_column [] name = None"
| "dict_column ((key, Attribute) # items) name = dict_column items name"
| "dict_column ((key, Column cname getter) # items) name =
     (if cname = name then Some getter else dict_column items name)"

text \<open>
  The second loop tries the bases in order and swallows the exception of each one that
  does not have the column (\<^verbatim>\<open>try: return find_column(base, name)\<close>, \<^verbatim>\<open>except: pass\<close>).
\<close>

fun find_column :: "pyclass \<Rightarrow> string \<Rightarrow> error + provider"
  and find_column_bases :: "pyclass list \<Rightarrow> string \<Rightarrow> provider option" where
  "find_column (PyClass d bs) name =
     (case dict_column d name of
        Some getter \<Rightarrow> Inr getter
      | None \<Rightarrow> (case find_column_bases bs name of
                  Some getter \<Rightarrow> Inr getter
                | None \<Rightarrow> Inl (AttributeError_column name)))"
| "find_column_bases [] name = None"
| "find_column_bases (base # bs) name =
     (case find_column base name of
        Inr getter \<Rightarrow> Some getter
      | Inl e \<Rightarrow> find_column_bases bs name)"

section \<open>Catalogs\<close>

text \<open>
  The column functions of \<^verbatim>\<open>CatalogSource\<close>: \<^verbatim>\<open>Selection\<close> is \<^verbatim>\<open>True\<close> for every particle,
  \<^verbatim>\<open>Weight\<close> and \<^verbatim>\<open>Value\<close> are \<^verbatim>\<open>1.0\<close>, each a \<^verbatim>\<open>ConstantArray\<close> of \<^verbatim>\<open>self.size\<close> rows.
\<close>

definition Selection :: provider where
  "Selection sz = ConstantArray_sized (BoolS True) sz"

definition Weight :: provider where
  "Weight sz = ConstantArray_sized (FloatS 1) sz"

definition Value :: provider where
  "Value sz = ConstantArray_sized (FloatS 1) sz"

text \<open>
  The three classes involved, with the members defined in \<^verbatim>\<open>catalog.py\<close> in source order.
  No entry of \<^verbatim>\<open>object.__dict__\<close> carries a \<^verbatim>\<open>column_name\<close>, and untagged entries are
  skipped by both \<^verbatim>\<open>find_columns\<close> and \<^verbatim>\<open>find_column\<close>.
\<close>

definition object_class :: pyclass where
  "object_class = PyClass [] []"

definition CatalogSourceBase_class :: pyclass where
  "CatalogSourceBase_class = PyClass
     [(''logger'', Attribute), (''make_column'', Attribute), (''__init__'', Attribute),
      (''__iter__'', Attribute), (''__contains__'', Attribute), (''__getitem__'', Attribute),
      (''__setitem__'', Attribute), (''use_cache'', Attribute), (''hardcolumns'', Attribute),
      (''columns'', Attribute), (''attrs'', Attribute), (''get_hardcolumn'', Attribute),
      (''compute'', Attribute), (''save'', Attribute), (''read'', Attribute),
      (''to_mesh'', Attribute)]
     [object_class]"

definition CatalogSource_class :: pyclass where
  "CatalogSource_class = PyClass
     [(''logger'', Attribute), (''_from_columns'', Attribute), (''__init__'', Attribute),
      (''__repr__'', Attribute), (''__len__'', Attribute), (''__setitem__'', Attribute),
      (''copy'', Attribute), (''size'', Attribute), (''csize'', Attribute),
      (''Selection'', Column ''Selection'' Selection),
      (''Weight'', Column ''Weight'' Weight),
      (''Value'', Column ''Value'' Value),
      (''update_csize'', Attribute)]
     [CatalogSourceBase_class]"

text \<open>
  The attributes of a catalog object. \<open>size_attr\<close> is \<^verbatim>\<open>_size\<close>: \<open>None\<close> when the attribute
  is absent or holds \<^verbatim>\<open>NotImplemented\<close>, the two cases in which the \<^verbatim>\<open>size\<close> property is
  \<^verbatim>\<open>NotImplemented\<close>. \<open>overrides\<close> is the dictionary \<^verbatim>\<open>_overrides\<close>, in insertion order.
  \<open>attrs_ref\<close> is \<^verbatim>\<open>_attrs\<close>: absent, or a reference to a dictionary in the store below.
  \<open>comm\<close> stands for \<^verbatim>\<open>comm.allreduce\<close>, the sum of this rank's contribution with those of
  the other ranks.
\<close>

type_synonym comm = "nat \<Rightarrow> nat"

record catalog =
  cls :: pyclass
  size_attr :: "nat option"
  overrides :: "(string \<times> ndarray) list"
  attrs_ref :: "nat option"
  use_cache :: bool
  comm :: comm
  csize_attr :: "nat option"

text \<open>The \<^verbatim>\<open>size\<close> property.\<close>

definition size_of :: "catalog \<Rightarrow> nat option" where
  "size_of self = size_attr self"

text \<open>
  The \<^verbatim>\<open>hardcolumns\<close> property. The source caches the list in \<^verbatim>\<open>_hardcolumns\<close> on first use;
  a class does not change, so the cached list is the computed one.
\<close>

definition hardcolumns :: "catalog \<Rightarrow> string list" where
  "hardcolumns self = find_columns (cls self)"

text \<open>The \<^verbatim>\<open>columns\<close> property: \<^verbatim>\<open>sorted(set(hcolumns + overrides))\<close>.\<close>

definition columns :: "catalog \<Rightarrow> string list" where
  "columns self = sort (remdups (hardcolumns self @ map fst (overrides self)))"

text \<open>\<^verbatim>\<open>get_hardcolumn\<close>: \<^verbatim>\<open>find_column(self.__class__, col)(self)\<close>.\<close>

definition get_hardcolumn :: "catalog \<Rightarrow> string \<Rightarrow> error + ndarray" where
  "get_hardcolumn self col =
     (case find_column (cls self) col of
        Inl e \<Rightarrow> Inl e
      | Inr getter \<Rightarrow>
          (case getter (size_of self) of
             None \<Rightarrow> Inl (ColumnError col)
           | Some r \<Rightarrow> Inr r))"

text \<open>
  A \<^verbatim>\<open>ColumnAccessor\<close> is the dask array of the column together with a reference to the
  catalog (used by \<^verbatim>\<open>compute\<close> only) and a fresh, empty \<^verbatim>\<open>attrs\<close> dictionary of its own.
\<close>

datatype column_accessor = ColumnAccessor (as_daskarray: ndarray)

text \<open>
  \<^verbatim>\<open>__getitem__\<close> with a string: the override if there is one, else the hard column, else
  \<^verbatim>\<open>KeyError\<close>. The values held here are arrays, never callables, so the
  \<^verbatim>\<open>if callable(r): r = r()\<close> step does nothing.
\<close>

definition getitem_str :: "catalog \<Rightarrow> string \<Rightarrow> error + column_accessor" where
  "getitem_str self sel =
     (case map_of (overrides self) sel of
        Some r \<Rightarrow> Inr (ColumnAccessor r)
      | None \<Rightarrow>
          if sel \<in> set (hardcolumns self)
          then (case get_hardcolumn self sel of
                  Inl e \<Rightarrow> Inl e
                | Inr r \<Rightarrow> Inr (ColumnAccessor r))
          else Inl (KeyError_column sel))"

text \<open>
  \<^verbatim>\<open>compute\<close> with a single argument: \<^verbatim>\<open>dask.compute\<close> evaluates the array, inside the
  cache or not, and the one-element tuple is unwrapped. The cache changes no value.
\<close>

definition compute :: "catalog \<Rightarrow> ndarray \<Rightarrow> ndarray" where
  "compute self a = a"

text \<open>\<^verbatim>\<open>ColumnAccessor.compute\<close>: \<^verbatim>\<open>self.catalog.compute(self)\<close>.\<close>

definition ColumnAccessor_compute :: "catalog \<Rightarrow> column_accessor \<Rightarrow> ndarray" where
  "ColumnAccessor_compute self acc = compute self (as_daskarray acc)"

text \<open>
  The values that are assigned to a column: a scalar (\<^verbatim>\<open>numpy.isscalar\<close>), a dask array, a
  \<^verbatim>\<open>ColumnAccessor\<close>, or a numpy array. \<^verbatim>\<open>make_column\<close> turns the last three into a dask
  array; a \<^verbatim>\<open>ColumnAccessor\<close> is an instance of \<^verbatim>\<open>da.Array\<close>, so the first test of
  \<^verbatim>\<open>make_column\<close> already returns it.
\<close>

datatype pyvalue =
    Scalar scalar
  | DaskArray ndarray
  | Accessor column_accessor
  | NumpyArray ndarray

datatype arraylike = ADask ndarray | AAccessor column_accessor | ANumpy ndarray

fun make_column :: "arraylike \<Rightarrow> ndarray" where
  "make_column (ADask a) = a"
| "make_column (AAccessor acc) = as_daskarray acc"
| "make_column (ANumpy a) = a"

fun arraylike_len :: "arraylike \<Rightarrow> nat" where
  "arraylike_len (ADask a) = len a"
| "arraylike_len (AAccessor acc) = len (as_daskarray acc)"
| "arraylike_len (ANumpy a) = len a"

text \<open>
  \<^verbatim>\<open>CatalogSourceBase.__setitem__\<close>: \<^verbatim>\<open>self._overrides[col] = self.make_column(value)\<close>.
  Assigning to a dictionary key keeps the position of a key that is present and appends a
  new one.
\<close>

definition CatalogSourceBase_setitem :: "catalog \<Rightarrow> string \<Rightarrow> arraylike \<Rightarrow> catalog" where
  "CatalogSourceBase_setitem self col v =
     self\<lparr>overrides := AList.update col (make_column v) (overrides self)\<rparr>"

text \<open>
  \<^verbatim>\<open>CatalogSource.__setitem__\<close>. The result is the outcome together with the catalog as the
  call leaves it, whether it returns or raises.
\<close>

definition broadcast :: "catalog \<Rightarrow> pyvalue \<Rightarrow> error + arraylike" where
  "broadcast self v =
     (case v of
        Scalar x \<Rightarrow>
          (case size_of self of
             None \<Rightarrow> Inl AssertionError_scalar_size
           | Some n \<Rightarrow> Inr (ADask (ConstantArray x n)))
      | DaskArray a \<Rightarrow> Inr (ADask a)
      | Accessor acc \<Rightarrow> Inr (AAccessor acc)
      | NumpyArray a \<Rightarrow> Inr (ANumpy a))"

definition setitem :: "catalog \<Rightarrow> string \<Rightarrow> pyvalue \<Rightarrow> (error + unit) \<times> catalog" where
  "setitem self col v =
     (case broadcast self v of
        Inl e \<Rightarrow> (Inl e, self)
      | Inr a \<Rightarrow>
          (case size_of self of
             Some n \<Rightarrow>
               if arraylike_len a \<noteq> n then (Inl (AssertionError_length n), self)
               else (Inr (), CatalogSourceBase_setitem self col a)
           | None \<Rightarrow> (Inr (), CatalogSourceBase_setitem self col a)))"

text \<open>
  \<^verbatim>\<open>_from_columns\<close>: a bare \<^verbatim>\<open>CatalogSource\<close> object with \<^verbatim>\<open>_size = size\<close>, initialised by
  \<^verbatim>\<open>CatalogSource.__init__\<close> (empty overrides, no \<^verbatim>\<open>_attrs\<close>, and the collective size when
  the size is known), then one \<^verbatim>\<open>self[name] = columns[name]\<close> per column.
\<close>

definition new_CatalogSource :: "nat option \<Rightarrow> comm \<Rightarrow> bool \<Rightarrow> catalog" where
  "new_CatalogSource sz cm cache =
     \<lparr>cls = CatalogSource_class, size_attr = sz, overrides = [], attrs_ref = None,
      use_cache = cache, comm = cm,
      csize_attr = (case sz of None \<Rightarrow> None | Some n \<Rightarrow> Some (cm n))\<rparr>"

fun set_columns :: "catalog \<Rightarrow> (string \<times> pyvalue) list \<Rightarrow> error + catalog" where
  "set_columns self [] = Inr self"
| "set_columns self ((name, v) # cs) =
     (case setitem self name v of
        (Inl e, self') \<Rightarrow> Inl e
      | (Inr u, self') \<Rightarrow> set_columns self' cs)"

text \<open>
  The signature is \<^verbatim>\<open>_from_columns(kls, size, comm, use_cache=False, **columns)\<close>, and every
  caller passes the columns as keyword arguments (\<^verbatim>\<open>**subset_data\<close>, \<^verbatim>\<open>**data\<close>) next to
  \<^verbatim>\<open>size\<close>, \<^verbatim>\<open>comm\<close> and \<^verbatim>\<open>use_cache\<close>. A column whose name is the name of a parameter
  is a second value for that parameter: the call raises \<^verbatim>\<open>TypeError\<close> before the body runs.
\<close>

definition parameter_names :: "string list" where
  "parameter_names = [''kls'', ''size'', ''comm'', ''use_cache'']"

definition from_columns ::
  "nat option \<Rightarrow> comm \<Rightarrow> bool \<Rightarrow> (string \<times> pyvalue) list \<Rightarrow> error + catalog" where
  "from_columns sz cm cache cs =
     (if list_ex (\<lambda>(name, v). name \<in> set parameter_names) cs then Inl TypeError_multiple_values
      else set_columns (new_CatalogSource sz cm cache) cs)"

section \<open>The attribute dictionaries\<close>

text \<open>
  \<^verbatim>\<open>attrs\<close> is a mutable dictionary, and the catalog holds a reference to it. Whether two
  catalogs share one dictionary is a matter of these references, so the dictionaries live
  in a store: a table from addresses to dictionaries and the next unused address. A new
  dictionary (\<^verbatim>\<open>{}\<close>) takes the next address.
\<close>

datatype attrval = AttrInt int | AttrStr string | AttrList "attrval list"

type_synonym attrs_dict = "string \<Rightarrow> attrval option"

record store =
  dicts :: "nat \<Rightarrow> attrs_dict option"
  fresh :: nat

definition new_dict :: "store \<Rightarrow> nat \<times> store" where
  "new_dict s = (fresh s, s\<lparr>dicts := (dicts s)(fresh s \<mapsto> Map.empty), fresh := Suc (fresh s)\<rparr>)"

text \<open>
  The \<^verbatim>\<open>attrs\<close> property: \<^verbatim>\<open>self._attrs\<close>, created empty on first access. The result is the
  address of the dictionary, with the store and the catalog as the access leaves them.
\<close>

definition attrs :: "store \<Rightarrow> catalog \<Rightarrow> nat \<times> store \<times> catalog" where
  "attrs s self =
     (case attrs_ref self of
        Some a \<Rightarrow> (a, s, self)
      | None \<Rightarrow> (case new_dict s of (a, s') \<Rightarrow> (a, s', self\<lparr>attrs_ref := Some a\<rparr>)))"

text \<open>
  \<^verbatim>\<open>d.update(e)\<close> for the dictionaries at two addresses: the entries of \<open>e\<close> are written into
  \<open>d\<close>. A reference held by an object always points to a dictionary; the store is left as
  it is for an address without one.
\<close>

definition dict_update :: "store \<Rightarrow> nat \<Rightarrow> nat \<Rightarrow> store" where
  "dict_update s a b =
     (case (dicts s a, dicts s b) of
        (Some d, Some e) \<Rightarrow> s\<lparr>dicts := (dicts s)(a \<mapsto> d ++ e)\<rparr>
      | _ \<Rightarrow> s)"

text \<open>\<^verbatim>\<open>d[key] = value\<close> for the dictionary at an address.\<close>

definition dict_setitem :: "store \<Rightarrow> nat \<Rightarrow> string \<Rightarrow> attrval \<Rightarrow> store" where
  "dict_setitem s a k v =
     (case dicts s a of
        Some d \<Rightarrow> s\<lparr>dicts := (dicts s)(a \<mapsto> d(k \<mapsto> v))\<rparr>
      | None \<Rightarrow> s)"

text \<open>
  \<^verbatim>\<open>toret.attrs.update(parent.attrs)\<close>, the last step of every derived catalog:
  \<^verbatim>\<open>toret.attrs\<close> is evaluated first, then \<^verbatim>\<open>parent.attrs\<close>, then the update runs.
\<close>

definition attrs_update_from :: "store \<Rightarrow> catalog \<Rightarrow> catalog \<Rightarrow> store \<times> catalog \<times> catalog" where
  "attrs_update_from s toret parent =
     (case attrs s toret of
        (a, s1, toret') \<Rightarrow>
          (case attrs s1 parent of
             (b, s2, parent') \<Rightarrow> (dict_update s2 a b, toret', parent')))"

section \<open>Derived catalogs\<close>

text \<open>
  The index given to \<^verbatim>\<open>get_catalog_subset\<close>: a dask array, which is computed first; a list,
  which goes through \<^verbatim>\<open>numpy.array\<close>; or a numpy array.
\<close>

datatype index = DaskIndex ndarray | ListIndex "scalar list" | ArrayIndex ndarray

definition force_index :: "catalog \<Rightarrow> index \<Rightarrow> ndarray" where
  "force_index parent ix =
     (case ix of
        DaskIndex a \<Rightarrow> compute parent a
      | ListIndex xs \<Rightarrow> numpy_array xs
      | ArrayIndex a \<Rightarrow> a)"

text \<open>\<^verbatim>\<open>index.dtype == '?'\<close>: the array is boolean, and then these are its entries.\<close>

fun bool_mask :: "ndarray \<Rightarrow> bool list option" where
  "bool_mask (BoolArr m) = Some m"
| "bool_mask _ = None"

text \<open>
  \<^verbatim>\<open>{col: parent[col][index] for col in parent}\<close>: the columns are visited in the order of
  \<^verbatim>\<open>parent.columns\<close>, whose names are distinct, and the first failure ends the loop.
\<close>

fun subset_columns :: "catalog \<Rightarrow> bool list \<Rightarrow> string list \<Rightarrow> error + (string \<times> pyvalue) list" where
  "subset_columns parent m [] = Inr []"
| "subset_columns parent m (col # cols) =
     (case getitem_str parent col of
        Inl e \<Rightarrow> Inl e
      | Inr acc \<Rightarrow>
          (case getitem_mask (as_daskarray acc) m of
             Inl e \<Rightarrow> Inl e
           | Inr a \<Rightarrow>
               (case subset_columns parent m cols of
                  Inl e \<Rightarrow> Inl e
                | Inr rest \<Rightarrow> Inr ((col, DaskArray a) # rest))))"

text \<open>
  \<^verbatim>\<open>get_catalog_subset\<close>. The result is the new catalog, the parent (whose \<^verbatim>\<open>_attrs\<close> may have
  been created by the last step) and the store. Nothing is written before the last step,
  so a failure leaves parent and store as they were.
\<close>

definition get_catalog_subset ::
  "store \<Rightarrow> catalog \<Rightarrow> index \<Rightarrow> error + (catalog \<times> catalog \<times> store)" where
  "get_catalog_subset s parent ix =
     (let idx = force_index parent ix in
      case size_of parent of
        None \<Rightarrow> Inl TypeError_len
      | Some n \<Rightarrow>
          if len idx \<noteq> n then Inl (ValueError_slice_length (len idx) n)
          else (case bool_mask idx of
                  None \<Rightarrow> Inl ValueError_not_boolean
                | Some m \<Rightarrow>
                    (case subset_columns parent m (columns parent) of
                       Inl e \<Rightarrow> Inl e
                     | Inr subset_data \<Rightarrow>
                         (case from_columns (Some (bool_sum m)) (comm parent)
                                 (use_cache parent) subset_data of
                            Inl e \<Rightarrow> Inl e
                          | Inr toret \<Rightarrow>
                              (case attrs_update_from s toret parent of
                                 (s', toret', parent') \<Rightarrow> Inr (toret', parent', s'))))))"

text \<open>The items of \<^verbatim>\<open>{col: self[col] for col in names}\<close>, in the order of the names.\<close>

fun collect_columns :: "catalog \<Rightarrow> string list \<Rightarrow> error + (string \<times> pyvalue) list" where
  "collect_columns self [] = Inr []"
| "collect_columns self (col # cols) =
     (case getitem_str self col of
        Inl e \<Rightarrow> Inl e
      | Inr acc \<Rightarrow>
          (case collect_columns self cols of
             Inl e \<Rightarrow> Inl e
           | Inr rest \<Rightarrow> Inr ((col, Accessor acc) # rest)))"

text \<open>
  The dictionary built from a sequence of items: a key that comes again keeps its place
  and takes the later value.
\<close>

definition py_dict :: "(string \<times> 'v) list \<Rightarrow> (string \<times> 'v) list" where
  "py_dict items = foldl (\<lambda>d (k, v). AList.update k v d) [] items"

text \<open>
  \<^verbatim>\<open>__getitem__\<close> with a list of strings: the names that are not columns are reported
  together; otherwise the selected columns make a new catalog of the same size.
\<close>

definition getitem_names ::
  "store \<Rightarrow> catalog \<Rightarrow> string list \<Rightarrow> error + (catalog \<times> catalog \<times> store)" where
  "getitem_names s self sel =
     (let invalid = remdups (filter (\<lambda>name. name \<notin> set (columns self)) sel) in
      if invalid \<noteq> [] then Inl (KeyError_invalid_columns invalid)
      else (case collect_columns self sel of
              Inl e \<Rightarrow> Inl e
            | Inr subset_data \<Rightarrow>
                (case from_columns (size_of self) (comm self) (use_cache self)
                        (py_dict subset_data) of
                   Inl e \<Rightarrow> Inl e
                 | Inr toret \<Rightarrow>
                     (case attrs_update_from s toret self of
                        (s', toret', self') \<Rightarrow> Inr (toret', self', s')))))"

text \<open>
  \<^verbatim>\<open>copy\<close>. With the size \<^verbatim>\<open>NotImplemented\<close> the method executes
  \<^verbatim>\<open>return ValueError(...)\<close>: the exception object is the value returned, nothing is raised.
\<close>

datatype copy_result = ReturnedCatalog catalog | ReturnedException error

definition copy :: "store \<Rightarrow> catalog \<Rightarrow> error + (copy_result \<times> catalog \<times> store)" where
  "copy s self =
     (if size_of self = None then Inr (ReturnedException ValueError_copy, self, s)
      else (case collect_columns self (columns self) of
              Inl e \<Rightarrow> Inl e
            | Inr data \<Rightarrow>
                (case from_columns (size_of self) (comm self) (use_cache self) data of
                   Inl e \<Rightarrow> Inl e
                 | Inr toret \<Rightarrow>
                     (case attrs_update_from s toret self of
                        (s', toret', self') \<Rightarrow> Inr (ReturnedCatalog toret', self', s')))))"

section \<open>Vocabulary of the properties\<close>

text \<open>
  The hard-column names a class declares, collected from the class and, recursively, from
  all of its ancestors: the set that \<^verbatim>\<open>find_columns\<close> is meant to enumerate.
\<close>

fun declared_columns :: "pyclass \<Rightarrow> string set" where
  "declared_columns (PyClass d bs) = set (dict_columns d) \<union> (\<Union>b \<in> set bs. declared_columns b)"

text \<open>
  The number of rows of a column of a catalog, when the column can be read.
\<close>

definition column_len :: "catalog \<Rightarrow> string \<Rightarrow> nat option" where
  "column_len self col =
     (case getitem_str self col of Inl e \<Rightarrow> None | Inr acc \<Rightarrow> Some (len (as_daskarray acc)))"

text \<open>
  The invariant of the data model on column lengths: every column of the catalog can be
  read and has \<^verbatim>\<open>size\<close> rows. \<open>overrides_ok\<close> is the part of it that
  \<^verbatim>\<open>CatalogSource.__setitem__\<close> checks at assignment.
\<close>

definition columns_ok :: "catalog \<Rightarrow> bool" where
  "columns_ok self = list_all (\<lambda>col. column_len self col = size_of self) (columns self)"

definition overrides_ok :: "catalog \<Rightarrow> bool" where
  "overrides_ok self = list_all (\<lambda>(k, a). Some (len a) = size_of self) (overrides self)"

text \<open>No column of the catalog has the name of a parameter of \<^verbatim>\<open>_from_columns\<close>.\<close>

definition names_ok :: "catalog \<Rightarrow> bool" where
  "names_ok self = list_all (\<lambda>col. col \<notin> set parameter_names) (columns self)"

text \<open>
  The array that a non-scalar value stands for, its number of rows (\<^verbatim>\<open>len(value)\<close>), and
  the entries of an array as a list of scalars.
\<close>

fun value_array :: "pyvalue \<Rightarrow> ndarray option" where
  "value_array (Scalar x) = None"
| "value_array (DaskArray a) = Some a"
| "value_array (Accessor acc) = Some (as_daskarray acc)"
| "value_array (NumpyArray a) = Some a"

fun value_rows :: "pyvalue \<Rightarrow> nat option" where
  "value_rows (Scalar x) = None"
| "value_rows (DaskArray a) = Some (len a)"
| "value_rows (Accessor acc) = Some (len (as_daskarray acc))"
| "value_rows (NumpyArray a) = Some (len a)"

fun tolist :: "ndarray \<Rightarrow> scalar list" where
  "tolist (BoolArr xs) = map BoolS xs"
| "tolist (IntArr xs) = map IntS xs"
| "tolist (FloatArr xs) = map FloatS xs"

text \<open>
  The two failures of the validation in \<^verbatim>\<open>get_catalog_subset\<close>.
\<close>

fun validation_error :: "error \<Rightarrow> bool" where
  "validation_error (ValueError_slice_length i j) = True"
| "validation_error ValueError_not_boolean = True"
| "validation_error _ = False"

text \<open>
  A reference held by a catalog points to a dictionary that has been allocated.
\<close>

definition store_ok :: "store \<Rightarrow> catalog \<Rightarrow> bool" where
  "store_ok s self =
     (case attrs_ref self of None \<Rightarrow> True | Some b \<Rightarrow> b < fresh s \<and> dicts s b \<noteq> None)"

section \<open>Example catalogs\<close>

text \<open>
  A communicator with a single rank, an empty store, a \<^verbatim>\<open>CatalogSource\<close> of four
  particles with one column assigned, and a \<^verbatim>\<open>CatalogSource\<close> whose size is
  \<^verbatim>\<open>NotImplemented\<close>.
\<close>

definition single_rank :: comm where
  "single_rank n = n"

definition empty_store :: store where
  "empty_store = \<lparr>dicts = (\<lambda>a. None), fresh = 0\<rparr>"

definition flag_catalog :: catalog where
  "flag_catalog =
     \<lparr>cls = CatalogSource_class, size_attr = Some 4,
      overrides = [(''Flag'', BoolArr [True, True, False, False])], attrs_ref = None,
      use_cache = False, comm = single_rank, csize_attr = Some 4\<rparr>"

definition unsized_catalog :: catalog where
  "unsized_catalog = new_CatalogSource None single_rank False"

text \<open>
  A \<^verbatim>\<open>CatalogSource\<close> of four particles with a column named \<^verbatim>\<open>size\<close>, as
  \<^verbatim>\<open>cat['size'] = numpy.array([3, 1, 4, 1])\<close> leaves it.
\<close>

definition size_column_catalog :: catalog where
  "size_column_catalog =
     \<lparr>cls = CatalogSource_class, size_attr = Some 4,
      overrides = [(''size'', IntArr [3, 1, 4, 1])], attrs_ref = None,
      use_cache = False, comm = single_rank, csize_attr = Some 4\<rparr>"

text \<open>
  The catalog with the \<^verbatim>\<open>Flag\<close> column after its \<^verbatim>\<open>attrs\<close> have been given a \<^verbatim>\<open>BoxSize\<close>:
  the dictionary is at address 0 of the store.
\<close>

definition boxed_store :: store where
  "boxed_store =
     \<lparr>dicts = (\<lambda>a. if a = 0 then Some [''BoxSize'' \<mapsto> AttrInt 100] else None), fresh = 1\<rparr>"

definition boxed_catalog :: catalog where
  "boxed_catalog = flag_catalog\<lparr>attrs_ref := Some 0\<rparr>"

section \<open>Hard columns of a class\<close>

lemma set_find_columns: "set (find_columns c) = declared_columns c"
  by (induction c rule: find_columns.induct) auto



lemma dict_column_Some: "name \<in> set (dict_columns d) \<Longrightarrow> \<exists>g. dict_column d name = Some g"
  by (induction d name rule: dict_column.induct) auto

lemma dict_column_None: "name \<notin> set (dict_columns d) \<Longrightarrow> dict_column d name = None"
  by (induction d name rule: dict_column.induct) auto

text \<open>
  \<^verbatim>\<open>find_column\<close> succeeds exactly on the names that \<^verbatim>\<open>find_columns\<close> lists, by mutual
  induction over the class and its list of bases.
\<close>

lemma find_column_declared:
  "(name \<in> declared_columns c \<longrightarrow> (\<exists>g. find_column c name = Inr g)) \<and>
   (name \<notin> declared_columns c \<longrightarrow> find_column c name = Inl (AttributeError_column name))"
  and find_column_bases_declared:
  "((\<exists>b \<in> set bs. name \<in> declared_columns b) \<longrightarrow> (\<exists>g. find_column_bases bs name = Some g)) \<and>
   ((\<forall>b \<in> set bs. name \<notin> declared_columns b) \<longrightarrow> find_column_bases bs name = None)"
proof (induction c name and bs name rule: find_column_find_column_bases.induct)
  case (1 d bs name)
  then show ?case
    by (cases "name \<in> set (dict_columns d)")
       (auto dest: dict_column_Some simp: dict_column_None split: option.splits)
next
  case (2 name)
  then show ?case by simp
next
  case (3 base bs name)
  then show ?case by (auto split: sum.splits)
qed

lemma find_column_error: "find_column c name = Inl e \<Longrightarrow> e = AttributeError_column name"
  by (cases c) (auto split: option.splits)

lemma hardcolumns_CatalogSource:
  "find_columns CatalogSource_class = [''Selection'', ''Value'', ''Weight'']"
  by (simp add: CatalogSource_class_def CatalogSourceBase_class_def object_class_def)

lemma find_column_CatalogSource:
  "find_column CatalogSource_class ''Selection'' = Inr Selection"
  "find_column CatalogSource_class ''Value'' = Inr Value"
  "find_column CatalogSource_class ''Weight'' = Inr Weight"
  by (simp_all add: CatalogSource_class_def CatalogSourceBase_class_def object_class_def)

section \<open>Arrays and assignment\<close>

lemma len_select_rows: "length xs = length m \<Longrightarrow> length (select_rows xs m) = bool_sum m"
  by (induction xs m rule: select_rows.induct) (auto simp: bool_sum_def)

lemma bool_sum_count: "bool_sum m = count_list m True"
  by (induction m) (auto simp: bool_sum_def)

lemma getitem_mask_len:
  "getitem_mask a m = Inr r \<Longrightarrow> len r = bool_sum m"
  by (cases a) (auto simp: getitem_mask_def len_select_rows split: if_splits)

lemma getitem_mask_ok:
  "len a = length m \<Longrightarrow> \<exists>r. getitem_mask a m = Inr r"
  by (simp add: getitem_mask_def)

lemma len_ConstantArray: "len (ConstantArray v n) = n"
  by (cases v) simp_all

lemma tolist_ConstantArray: "tolist (ConstantArray x n) = replicate n x"
  by (cases x) simp_all

lemma setitem_fields:
  "setitem self col v = (r, self') \<Longrightarrow>
     size_attr self' = size_attr self \<and> cls self' = cls self \<and> attrs_ref self' = attrs_ref self
     \<and> comm self' = comm self \<and> use_cache self' = use_cache self"
  by (auto simp: setitem_def CatalogSourceBase_setitem_def split: sum.splits option.splits if_splits)

lemma set_columns_fields:
  "set_columns self cs = Inr self' \<Longrightarrow>
     size_attr self' = size_attr self \<and> cls self' = cls self \<and> attrs_ref self' = attrs_ref self"
proof (induction self cs rule: set_columns.induct)
  case (1 self)
  then show ?case by simp
next
  case (2 self name v cs)
  then show ?case
    by (auto split: prod.splits sum.splits dest: setitem_fields)
qed

lemma from_columns_fields:
  "from_columns sz cm cache cs = Inr toret \<Longrightarrow>
     size_of toret = sz \<and> cls toret = CatalogSource_class \<and> attrs_ref toret = None"
  by (auto simp: from_columns_def new_CatalogSource_def size_of_def split: if_splits
           dest: set_columns_fields)

lemma setitem_rows_ok:
  "value_rows v = Some n \<Longrightarrow> size_of self = Some n \<Longrightarrow>
     \<exists>a. len a = n \<and>
       setitem self col v = (Inr (), self\<lparr>overrides := AList.update col a (overrides self)\<rparr>)"
  by (cases v) (auto simp: setitem_def broadcast_def CatalogSourceBase_setitem_def)

lemma set_update_subset: "set (AList.update k v al) \<subseteq> insert (k, v) (set al)"
  by (induction al) auto

lemma overrides_ok_update:
  "overrides_ok self \<Longrightarrow> Some (len a) = size_of self \<Longrightarrow>
     overrides_ok (self\<lparr>overrides := AList.update col a (overrides self)\<rparr>)"
  unfolding overrides_ok_def size_of_def list_all_iff
  using set_update_subset[of col a "overrides self"] by auto

text \<open>
  The loop of \<^verbatim>\<open>_from_columns\<close> runs to its end when every value has \<^verbatim>\<open>size\<close> rows, and
  the catalog then holds exactly the given names.
\<close>

lemma set_columns_ok:
  "size_of self = Some n \<Longrightarrow> overrides_ok self \<Longrightarrow>
   list_all (\<lambda>(k, v). value_rows v = Some n) cs \<Longrightarrow>
     \<exists>self'. set_columns self cs = Inr self' \<and> overrides_ok self' \<and>
        fst ` set (overrides self') = fst ` set (overrides self) \<union> fst ` set cs"
proof (induction cs arbitrary: self)
  case Nil
  then show ?case by simp
next
  case (Cons kv cs)
  obtain k v where kv: "kv = (k, v)" by (cases kv)
  with Cons.prems have v: "value_rows v = Some n" by simp
  from setitem_rows_ok[OF v Cons.prems(1)] obtain a where a: "len a = n"
    and s: "setitem self k v = (Inr (), self\<lparr>overrides := AList.update k a (overrides self)\<rparr>)"
    by blast
  let ?self = "self\<lparr>overrides := AList.update k a (overrides self)\<rparr>"
  have 1: "size_of ?self = Some n" using Cons.prems(1) by (simp add: size_of_def)
  have 2: "overrides_ok ?self" using overrides_ok_update[OF Cons.prems(2)] a Cons.prems(1) by simp
  have 3: "list_all (\<lambda>(k, v). value_rows v = Some n) cs" using Cons.prems(3) by simp
  from Cons.IH[OF 1 2 3] obtain self' where r: "set_columns ?self cs = Inr self'"
    "overrides_ok self'" "fst ` set (overrides self') = fst ` set (overrides ?self) \<union> fst ` set cs"
    by blast
  show ?case using r s kv by (auto simp: AList.dom_update)
qed

lemma subset_columns_vals:
  "subset_columns parent m cols = Inr d \<Longrightarrow>
     map fst d = cols \<and> list_all (\<lambda>(k, v). value_rows v = Some (bool_sum m)) d"
proof (induction cols arbitrary: d)
  case Nil
  then show ?case by simp
next
  case (Cons col cols)
  then show ?case
    by (auto split: sum.splits if_splits dest: getitem_mask_len)
qed

lemma subset_columns_ok:
  "list_all (\<lambda>col. column_len parent col = Some (length m)) cols \<Longrightarrow>
     \<exists>d. subset_columns parent m cols = Inr d"
proof (induction cols)
  case Nil
  then show ?case by simp
next
  case (Cons col cols)
  then obtain d where d: "subset_columns parent m cols = Inr d" by auto
  from Cons.prems obtain acc where acc: "getitem_str parent col = Inr acc"
      and l: "len (as_daskarray acc) = length m"
    by (auto simp: column_len_def split: sum.splits)
  show ?case using d acc l getitem_mask_ok[of "as_daskarray acc" m] by auto
qed

section \<open>The attribute store\<close>

lemma attrs_result:
  "attrs s self = (a, s', self') \<Longrightarrow> self' = self\<lparr>attrs_ref := Some a\<rparr>"
  by (cases self) (auto simp: attrs_def new_dict_def split: option.splits)

lemma attrs_update_from_fields:
  "attrs_update_from s toret parent = (s', toret', parent') \<Longrightarrow>
     (\<exists>a. toret' = toret\<lparr>attrs_ref := Some a\<rparr>) \<and> (\<exists>b. parent' = parent\<lparr>attrs_ref := Some b\<rparr>)"
  by (auto simp: attrs_update_from_def split: prod.splits dest: attrs_result)

lemma attrs_update_from_independent:
  assumes t: "attrs_ref toret = None" and ok: "store_ok s parent"
    and u: "attrs_update_from s toret parent = (s', toret', parent')"
  shows "\<exists>a b d. toret' = toret\<lparr>attrs_ref := Some a\<rparr> \<and> parent' = parent\<lparr>attrs_ref := Some b\<rparr> \<and>
           a \<noteq> b \<and> dicts s' a = Some d \<and> dicts s' b = Some d \<and>
           (case attrs_ref parent of Some b0 \<Rightarrow> b0 = b \<and> dicts s b = Some d | None \<Rightarrow> d = Map.empty)"
proof (cases "attrs_ref parent")
  case None
  let ?a = "fresh s" and ?b = "Suc (fresh s)"
  from None t u have 1: "toret' = toret\<lparr>attrs_ref := Some ?a\<rparr>"
    and 2: "parent' = parent\<lparr>attrs_ref := Some ?b\<rparr>"
    and 3: "dicts s' ?a = Some Map.empty" and 4: "dicts s' ?b = Some Map.empty"
    by (auto simp: attrs_update_from_def attrs_def new_dict_def dict_update_def)
  have "?a \<noteq> ?b" by simp
  with None 1 2 3 4 show ?thesis by (intro exI[of _ ?a] exI[of _ ?b] exI[of _ Map.empty]) simp
next
  case (Some b)
  with ok obtain e where e: "dicts s b = Some e" and b: "b < fresh s"
    by (auto simp: store_ok_def)
  let ?a = "fresh s"
  from Some t u e b have 1: "toret' = toret\<lparr>attrs_ref := Some ?a\<rparr>"
    and 2: "parent' = parent"
    and 3: "dicts s' ?a = Some e" and 4: "dicts s' b = Some e"
    by (auto simp: attrs_update_from_def attrs_def new_dict_def dict_update_def)
  from 2 Some have p2: "parent' = parent\<lparr>attrs_ref := Some b\<rparr>" by (cases parent) simp
  have "?a \<noteq> b" using b by simp
  with Some 1 p2 3 4 e show ?thesis by (intro exI[of _ ?a] exI[of _ b] exI[of _ e]) simp
qed

lemma columns_attrs_ref [simp]: "columns (self\<lparr>attrs_ref := x\<rparr>) = columns self"
  by (simp add: columns_def hardcolumns_def)

lemma size_of_attrs_ref [simp]: "size_of (self\<lparr>attrs_ref := x\<rparr>) = size_of self"
  by (simp add: size_of_def)

lemma get_hardcolumn_attrs_ref [simp]:
  "get_hardcolumn (self\<lparr>attrs_ref := x\<rparr>) col = get_hardcolumn self col"
  by (simp add: get_hardcolumn_def size_of_def split: sum.splits)

lemma getitem_str_attrs_ref [simp]:
  "getitem_str (self\<lparr>attrs_ref := x\<rparr>) col = getitem_str self col"
  by (simp add: getitem_str_def hardcolumns_def split: option.splits)

lemma columns_ok_attrs_ref [simp]: "columns_ok (self\<lparr>attrs_ref := x\<rparr>) = columns_ok self"
  by (simp add: columns_ok_def column_len_def)

section \<open>Subsets\<close>

text \<open>
  A \<^verbatim>\<open>CatalogSource\<close> of known size whose overrides have that many rows satisfies the
  invariant: its three hard columns are constant arrays of \<^verbatim>\<open>size\<close> rows.
\<close>

lemma columns_ok_CatalogSource:
  assumes c: "cls t = CatalogSource_class" and n: "size_of t = Some n" and o: "overrides_ok t"
  shows "columns_ok t"
  unfolding columns_ok_def list_all_iff
proof
  fix col assume "col \<in> set (columns t)"
  then have col: "col \<in> set (hardcolumns t) \<or> col \<in> fst ` set (overrides t)"
    by (auto simp: columns_def)
  show "column_len t col = size_of t"
  proof (cases "map_of (overrides t) col")
    case (Some a)
    then have "(col, a) \<in> set (overrides t)" by (rule map_of_SomeD)
    with o n have "len a = n" by (auto simp: overrides_ok_def list_all_iff)
    with Some n show ?thesis by (simp add: column_len_def getitem_str_def)
  next
    case None
    then have "col \<notin> fst ` set (overrides t)" by (simp add: map_of_eq_None_iff)
    with col have h: "col \<in> set (hardcolumns t)" by simp
    then have "col = ''Selection'' \<or> col = ''Value'' \<or> col = ''Weight''"
      using c by (simp add: hardcolumns_def hardcolumns_CatalogSource)
    then show ?thesis using None h n c
      by (auto simp: column_len_def getitem_str_def get_hardcolumn_def find_column_CatalogSource
                     Selection_def Value_def Weight_def ConstantArray_sized_def len_ConstantArray)
  qed
qed

lemma columns_ok_flag_catalog: "columns_ok flag_catalog"
  by (rule columns_ok_CatalogSource[where n = 4])
     (simp_all add: flag_catalog_def size_of_def overrides_ok_def)

lemma names_ok_flag_catalog: "names_ok flag_catalog"
  by (simp add: names_ok_def list_all_iff columns_def hardcolumns_def flag_catalog_def
        hardcolumns_CatalogSource parameter_names_def)

text \<open>The example catalogs are what assignments to a new \<^verbatim>\<open>CatalogSource\<close> produce.\<close>

lemma flag_catalog_built:
  "setitem (new_CatalogSource (Some 4) single_rank False) ''Flag''
     (NumpyArray (BoolArr [True, True, False, False])) = (Inr (), flag_catalog)"
  by (simp add: setitem_def broadcast_def size_of_def new_CatalogSource_def
        CatalogSourceBase_setitem_def flag_catalog_def single_rank_def)

lemma size_column_catalog_built:
  "setitem (new_CatalogSource (Some 4) single_rank False) ''size''
     (NumpyArray (IntArr [3, 1, 4, 1])) = (Inr (), size_column_catalog)"
  by (simp add: setitem_def broadcast_def size_of_def new_CatalogSource_def
        CatalogSourceBase_setitem_def size_column_catalog_def single_rank_def)

lemma set_columns_sub: "set (hardcolumns t) \<union> fst ` set (overrides t) = set (columns t)"
  by (simp add: columns_def)

lemma get_catalog_subset_size:
  assumes "get_catalog_subset s C ix = Inr (toret, parent', s')"
  shows "\<exists>m. force_index C ix = BoolArr m \<and> size_of C = Some (length m) \<and>
             size_of toret = Some (bool_sum m)"
proof -
  from assms obtain n m d t where n: "size_of C = Some n" and l: "len (force_index C ix) = n"
    and m: "bool_mask (force_index C ix) = Some m"
    and t: "from_columns (Some (bool_sum m)) (comm C) (use_cache C) d = Inr t"
    and u: "attrs_update_from s t C = (s', toret, parent')"
    by (auto simp: get_catalog_subset_def Let_def split: option.splits if_splits sum.splits prod.splits)
  from m have f: "force_index C ix = BoolArr m" by (cases "force_index C ix") auto
  from from_columns_fields[OF t] attrs_update_from_fields[OF u]
  have "size_of toret = Some (bool_sum m)" by auto
  with f l n show ?thesis by auto
qed

lemma get_catalog_subset_ok:
  assumes n: "size_of C = Some (length m)" and f: "force_index C ix = BoolArr m"
    and ok: "columns_ok C" and names: "names_ok C"
  shows "\<exists>toret parent' s'. get_catalog_subset s C ix = Inr (toret, parent', s') \<and>
           size_of toret = Some (bool_sum m) \<and> cls toret = CatalogSource_class \<and>
           fst ` set (overrides toret) = set (columns C) \<and> columns_ok toret"
proof -
  from ok n have "list_all (\<lambda>col. column_len C col = Some (length m)) (columns C)"
    by (simp add: columns_ok_def)
  from subset_columns_ok[OF this] obtain d where d: "subset_columns C m (columns C) = Inr d"
    by blast
  from subset_columns_vals[OF d] have keys: "map fst d = columns C"
    and rows: "list_all (\<lambda>(k, v). value_rows v = Some (bool_sum m)) d" by auto
  let ?new = "new_CatalogSource (Some (bool_sum m)) (comm C) (use_cache C)"
  have 1: "size_of ?new = Some (bool_sum m)" by (simp add: new_CatalogSource_def size_of_def)
  have 2: "overrides_ok ?new" by (simp add: new_CatalogSource_def overrides_ok_def)
  from set_columns_ok[OF 1 2 rows] obtain t where t: "set_columns ?new d = Inr t"
    and to: "overrides_ok t" and tk: "fst ` set (overrides t) = fst ` set (overrides ?new) \<union> fst ` set d"
    by blast
  have fst_d: "fst ` set d = set (columns C)"
    using keys by (simp flip: set_map)
  have "\<not> list_ex (\<lambda>(name, v). name \<in> set parameter_names) d"
    using names fst_d by (force simp: names_ok_def list_all_iff list_ex_iff)
  then have fc: "from_columns (Some (bool_sum m)) (comm C) (use_cache C) d = Inr t"
    using t by (simp add: from_columns_def)
  note tf = from_columns_fields[OF fc]
  have tk': "fst ` set (overrides t) = set (columns C)"
    using tk keys by (simp add: new_CatalogSource_def flip: set_map)
  have tok: "columns_ok t" using columns_ok_CatalogSource tf to by blast
  obtain s' toret parent' where u: "attrs_update_from s t C = (s', toret, parent')"
    by (cases "attrs_update_from s t C")
  from attrs_update_from_fields[OF u] obtain a where a: "toret = t\<lparr>attrs_ref := Some a\<rparr>"
    by blast
  have "get_catalog_subset s C ix = Inr (toret, parent', s')"
    using n f d fc u by (simp add: get_catalog_subset_def)
  moreover have "size_of toret = Some (bool_sum m)" using a tf by simp
  moreover have "cls toret = CatalogSource_class" using a tf by simp
  moreover have "fst ` set (overrides toret) = set (columns C)" using a tk' by simp
  moreover have "columns_ok toret" using a tok by simp
  ultimately show ?thesis by blast
qed

text \<open>
  C1. For a catalog of known local size and a boolean mask of that length (given as a dask
  array, a list or a numpy array), every catalog that \<^verbatim>\<open>get_catalog_subset\<close> returns has as
  local size the number of \<^verbatim>\<open>True\<close> entries of the mask; and the call does return a
  catalog when every column of the parent has \<^verbatim>\<open>size\<close> rows and none has the name of a
  parameter of \<^verbatim>\<open>_from_columns\<close>.
\<close>

theorem get_catalog_subset_local_size:
  assumes "size_of C = Some (length m)" and "force_index C ix = BoolArr m"
  shows "(\<forall>toret parent' s'. get_catalog_subset s C ix = Inr (toret, parent', s') \<longrightarrow>
            size_of toret = Some (count_list m True)) \<and>
         (columns_ok C \<and> names_ok C \<longrightarrow>
            (\<exists>toret parent' s'. get_catalog_subset s C ix = Inr (toret, parent', s') \<and>
               size_of toret = Some (count_list m True)))"
proof (intro conjI allI impI)
  fix toret parent' s'
  assume "get_catalog_subset s C ix = Inr (toret, parent', s')"
  from get_catalog_subset_size[OF this] assms(2)
  show "size_of toret = Some (count_list m True)" by (auto simp: bool_sum_count)
next
  assume "columns_ok C \<and> names_ok C"
  then have "columns_ok C" and "names_ok C" by simp_all
  from get_catalog_subset_ok[OF assms this, of s]
  show "\<exists>toret parent' s'. get_catalog_subset s C ix = Inr (toret, parent', s') \<and>
          size_of toret = Some (count_list m True)"
    by (auto simp: bool_sum_count)
qed

theorem get_catalog_subset_local_size_witness:
  "size_of flag_catalog = Some (length [True, False, True, False]) \<and>
   force_index flag_catalog (ListIndex [BoolS True, BoolS False, BoolS True, BoolS False])
     = BoolArr [True, False, True, False] \<and>
   columns_ok flag_catalog \<and> names_ok flag_catalog \<and>
   (\<exists>toret parent' s'.
      get_catalog_subset empty_store flag_catalog
        (ListIndex [BoolS True, BoolS False, BoolS True, BoolS False]) = Inr (toret, parent', s') \<and>
      size_of toret = Some 2)"
proof -
  have 1: "size_of flag_catalog = Some (length [True, False, True, False])"
    by (simp add: flag_catalog_def size_of_def)
  have 2: "force_index flag_catalog (ListIndex [BoolS True, BoolS False, BoolS True, BoolS False])
     = BoolArr [True, False, True, False]"
    by (simp add: force_index_def numpy_array_def)
  have 3: "count_list [True, False, True, False] True = 2" by simp
  from get_catalog_subset_local_size[OF 1 2, of empty_store, unfolded 3]
    columns_ok_flag_catalog names_ok_flag_catalog 1 2
  show ?thesis by blast
qed

text \<open>
  With a column named like a parameter of \<^verbatim>\<open>_from_columns\<close> the columns are read and masked,
  and then the call that should build the result fails.
\<close>

lemma get_catalog_subset_parameter_name:
  assumes n: "size_of C = Some (length m)" and f: "force_index C ix = BoolArr m"
    and ok: "columns_ok C" and names: "\<not> names_ok C"
  shows "get_catalog_subset s C ix = Inl TypeError_multiple_values"
proof -
  from ok n have "list_all (\<lambda>col. column_len C col = Some (length m)) (columns C)"
    by (simp add: columns_ok_def)
  from subset_columns_ok[OF this] obtain d where d: "subset_columns C m (columns C) = Inr d"
    by blast
  from subset_columns_vals[OF d] have keys: "map fst d = columns C" by simp
  have fst_d: "fst ` set d = set (columns C)"
    using keys by (simp flip: set_map)
  from names obtain col where "col \<in> set (columns C)" and "col \<in> set parameter_names"
    by (auto simp: names_ok_def list_all_iff)
  with fst_d obtain v where "(col, v) \<in> set d" by force
  with \<open>col \<in> set parameter_names\<close>
  have "list_ex (\<lambda>(name, v). name \<in> set parameter_names) d"
    by (auto simp: list_ex_iff)
  then have "from_columns (Some (bool_sum m)) (comm C) (use_cache C) d = Inl TypeError_multiple_values"
    by (simp add: from_columns_def)
  with n f d show ?thesis by (simp add: get_catalog_subset_def)
qed

text \<open>
  For a catalog of known local size whose columns have that many rows and are not named
  like a parameter, the subset by the all-\<^verbatim>\<open>False\<close> mask of that length is a catalog: its
  local size is 0, it satisfies the invariant on column lengths, and every column of the
  parent is a column of the result, with no rows.
\<close>

lemma all_False_subset_ok:
  assumes "size_of C = Some n" and "force_index C ix = BoolArr (replicate n False)"
    and "columns_ok C" and "names_ok C"
  shows "\<exists>toret parent' s'. get_catalog_subset s C ix = Inr (toret, parent', s') \<and>
           size_of toret = Some 0 \<and> columns_ok toret \<and>
           set (columns C) \<subseteq> set (columns toret) \<and>
           (\<forall>col \<in> set (columns C). column_len toret col = Some 0)"
proof -
  have n: "size_of C = Some (length (replicate n False))" using assms(1) by simp
  from get_catalog_subset_ok[OF n assms(2,3,4), of s]
  obtain toret parent' s' where r: "get_catalog_subset s C ix = Inr (toret, parent', s')"
    and sz: "size_of toret = Some (bool_sum (replicate n False))"
    and k: "fst ` set (overrides toret) = set (columns C)" and ok: "columns_ok toret"
    by blast
  have z: "size_of toret = Some 0" using sz by (simp add: bool_sum_def)
  have sub: "set (columns C) \<subseteq> set (columns toret)"
    using k set_columns_sub[of toret] by auto
  have "\<forall>col \<in> set (columns C). column_len toret col = Some 0"
    using sub ok z by (auto simp: columns_ok_def list_all_iff)
  with r z ok sub show ?thesis by blast
qed

text \<open>
  C7. The claim is that the subset of every catalog of known local size by the
  all-\<^verbatim>\<open>False\<close> mask of that length is a catalog of local size 0 with every column of the
  parent. On a \<^verbatim>\<open>CatalogSource\<close> of four particles that holds a column named \<^verbatim>\<open>size\<close>, with
  every column four rows long, the call fails: \<^verbatim>\<open>size\<close> reaches \<^verbatim>\<open>_from_columns\<close> both as
  the new local size and as a column.
\<close>

theorem all_False_subset_size_column:
  "size_of size_column_catalog = Some 4 \<and> columns_ok size_column_catalog \<and>
   ''size'' \<in> set (columns size_column_catalog) \<and>
   get_catalog_subset empty_store size_column_catalog
     (ArrayIndex (BoolArr [False, False, False, False])) = Inl TypeError_multiple_values"
proof -
  have 1: "size_of size_column_catalog = Some (length [False, False, False, False])"
    by (simp add: size_column_catalog_def size_of_def)
  have 2: "force_index size_column_catalog (ArrayIndex (BoolArr [False, False, False, False]))
             = BoolArr [False, False, False, False]"
    by (simp add: force_index_def)
  have 3: "columns_ok size_column_catalog"
    by (rule columns_ok_CatalogSource[where n = 4])
       (simp_all add: size_column_catalog_def size_of_def overrides_ok_def)
  have 4: "''size'' \<in> set (columns size_column_catalog)"
    by (simp add: columns_def size_column_catalog_def)
  then have 5: "\<not> names_ok size_column_catalog"
    by (auto simp: names_ok_def list_all_iff parameter_names_def)
  from get_catalog_subset_parameter_name[OF 1 2 3 5, of empty_store] 1 3 4
  show ?thesis by simp
qed

section \<open>Attributes of derived catalogs\<close>

text \<open>
  Each of the three operations that derive a catalog ends with
  \<^verbatim>\<open>toret.attrs.update(parent.attrs)\<close> on a catalog fresh from \<^verbatim>\<open>_from_columns\<close>, which has no
  \<^verbatim>\<open>_attrs\<close> yet.
\<close>

lemma derived_attrs:
  assumes "get_catalog_subset s parent ix = Inr (toret, parent', s') \<or>
           getitem_names s parent sel = Inr (toret, parent', s') \<or>
           copy s parent = Inr (ReturnedCatalog toret, parent', s')"
  shows "\<exists>t. attrs_ref t = None \<and> attrs_update_from s t parent = (s', toret, parent')"
  using assms
  by (auto simp: get_catalog_subset_def getitem_names_def copy_def Let_def
           split: option.splits if_splits sum.splits prod.splits
           dest!: from_columns_fields)

lemma columns_ok_boxed_catalog: "columns_ok boxed_catalog"
  by (simp add: boxed_catalog_def columns_ok_flag_catalog)

lemma names_ok_boxed_catalog: "names_ok boxed_catalog"
  using names_ok_flag_catalog by (simp add: boxed_catalog_def names_ok_def)

text \<open>
  C5. A catalog derived by subsetting, by selecting columns or by \<^verbatim>\<open>copy\<close> holds a
  dictionary of its own: its address differs from the address of the parent's dictionary,
  both dictionaries have the entries the parent's had, and writing a key into either one
  leaves the other as it was. The entries are copied by \<^verbatim>\<open>update\<close>, key by key; the values
  are data here, and a value that is itself mutated in place is outside this statement.
\<close>

theorem derived_attrs_independent:
  assumes "store_ok s parent"
    and "get_catalog_subset s parent ix = Inr (toret, parent', s') \<or>
         getitem_names s parent sel = Inr (toret, parent', s') \<or>
         copy s parent = Inr (ReturnedCatalog toret, parent', s')"
  shows "\<exists>a b d. attrs_ref toret = Some a \<and> attrs_ref parent' = Some b \<and> a \<noteq> b \<and>
           dicts s' a = Some d \<and> dicts s' b = Some d \<and>
           (case attrs_ref parent of Some b0 \<Rightarrow> b0 = b \<and> dicts s b = Some d | None \<Rightarrow> d = Map.empty) \<and>
           (\<forall>k v. dicts (dict_setitem s' a k v) a = Some (d(k \<mapsto> v)) \<and>
                  dicts (dict_setitem s' a k v) b = Some d) \<and>
           (\<forall>k v. dicts (dict_setitem s' b k v) b = Some (d(k \<mapsto> v)) \<and>
                  dicts (dict_setitem s' b k v) a = Some d)"
proof -
  from derived_attrs[OF assms(2)] obtain t where t: "attrs_ref t = None"
    and u: "attrs_update_from s t parent = (s', toret, parent')" by blast
  from attrs_update_from_independent[OF t assms(1) u]
  obtain a b d where 1: "toret = t\<lparr>attrs_ref := Some a\<rparr>" "parent' = parent\<lparr>attrs_ref := Some b\<rparr>"
    "a \<noteq> b" "dicts s' a = Some d" "dicts s' b = Some d"
    "(case attrs_ref parent of Some b0 \<Rightarrow> b0 = b \<and> dicts s b = Some d | None \<Rightarrow> d = Map.empty)"
    by blast
  have "attrs_ref toret = Some a" "attrs_ref parent' = Some b" using 1 by simp_all
  moreover have "\<forall>k v. dicts (dict_setitem s' a k v) a = Some (d(k \<mapsto> v)) \<and>
                  dicts (dict_setitem s' a k v) b = Some d"
    using 1 by (simp add: dict_setitem_def)
  moreover have "\<forall>k v. dicts (dict_setitem s' b k v) b = Some (d(k \<mapsto> v)) \<and>
                  dicts (dict_setitem s' b k v) a = Some d"
    using 1 by (simp add: dict_setitem_def)
  ultimately show ?thesis using 1(3-6) by blast
qed

theorem derived_attrs_independent_witness:
  "\<exists>toret parent' s' a.
     get_catalog_subset boxed_store boxed_catalog (ArrayIndex (BoolArr [True, False, True, False]))
       = Inr (toret, parent', s') \<and>
     attrs_ref toret = Some a \<and> attrs_ref parent' = Some 0 \<and> a \<noteq> 0 \<and>
     dicts s' a = Some [''BoxSize'' \<mapsto> AttrInt 100] \<and>
     dicts s' 0 = Some [''BoxSize'' \<mapsto> AttrInt 100] \<and>
     dicts (dict_setitem s' a ''Nmesh'' (AttrInt 64)) 0 = Some [''BoxSize'' \<mapsto> AttrInt 100] \<and>
     dicts (dict_setitem s' 0 ''Nmesh'' (AttrInt 64)) a = Some [''BoxSize'' \<mapsto> AttrInt 100]"
proof -
  have 1: "size_of boxed_catalog = Some (length [True, False, True, False])"
    by (simp add: boxed_catalog_def flag_catalog_def size_of_def)
  have 2: "force_index boxed_catalog (ArrayIndex (BoolArr [True, False, True, False]))
             = BoolArr [True, False, True, False]"
    by (simp add: force_index_def)
  from get_catalog_subset_ok[OF 1 2 columns_ok_boxed_catalog names_ok_boxed_catalog, of boxed_store]
  obtain toret parent' s' where
    r: "get_catalog_subset boxed_store boxed_catalog (ArrayIndex (BoolArr [True, False, True, False]))
          = Inr (toret, parent', s')"
    by blast
  have 3: "store_ok boxed_store boxed_catalog"
    by (simp add: store_ok_def boxed_store_def boxed_catalog_def)
  have 4: "attrs_ref boxed_catalog = Some 0" by (simp add: boxed_catalog_def)
  have 5: "dicts boxed_store 0 = Some [''BoxSize'' \<mapsto> AttrInt 100]"
    by (simp add: boxed_store_def)
  from derived_attrs_independent[OF 3 disjI1, OF r]
  obtain a b d where "attrs_ref toret = Some a" "attrs_ref parent' = Some b" "a \<noteq> b"
    "dicts s' a = Some d" "dicts s' b = Some d"
    "(case attrs_ref boxed_catalog of Some b0 \<Rightarrow> b0 = b \<and> dicts boxed_store b = Some d
      | None \<Rightarrow> d = Map.empty)"
    "\<forall>k v. dicts (dict_setitem s' a k v) a = Some (d(k \<mapsto> v)) \<and>
           dicts (dict_setitem s' a k v) b = Some d"
    "\<forall>k v. dicts (dict_setitem s' b k v) b = Some (d(k \<mapsto> v)) \<and>
           dicts (dict_setitem s' b k v) a = Some d"
    by blast
  with 4 5 r show ?thesis by auto
qed

section \<open>Validation of the index\<close>

lemma getitem_str_error: "getitem_str self col = Inl e \<Longrightarrow> \<not> validation_error e"
  by (auto simp: getitem_str_def get_hardcolumn_def split: option.splits if_splits sum.splits
           dest: find_column_error)

lemma getitem_mask_error: "getitem_mask a m = Inl e \<Longrightarrow> \<not> validation_error e"
  by (auto simp: getitem_mask_def split: if_splits)

lemma subset_columns_error: "subset_columns parent m cols = Inl e \<Longrightarrow> \<not> validation_error e"
  by (induction cols) (auto split: sum.splits dest: getitem_str_error getitem_mask_error)

lemma setitem_error: "setitem self col v = (Inl e, self') \<Longrightarrow> \<not> validation_error e"
  by (auto simp: setitem_def broadcast_def split: sum.splits option.splits if_splits pyvalue.splits)

lemma set_columns_error: "set_columns self cs = Inl e \<Longrightarrow> \<not> validation_error e"
proof (induction self cs rule: set_columns.induct)
  case (1 self)
  then show ?case by simp
next
  case (2 self name v cs)
  then show ?case by (auto split: prod.splits sum.splits dest: setitem_error)
qed

text \<open>
  C6. \<^verbatim>\<open>get_catalog_subset\<close> validates the forced index in two steps, the length and then
  the element type. For a catalog of local size \<open>n\<close>: an index whose length differs from
  \<open>n\<close> fails with LengthMismatch; an index that passes the length check and whose element
  type is not boolean fails with TypeMismatch; for a boolean index of length \<open>n\<close> neither
  of the two failures is raised, whatever the rest of the call does.
\<close>

theorem get_catalog_subset_validation:
  assumes "size_of C = Some n"
  shows "(len (force_index C ix) \<noteq> n \<longrightarrow>
            get_catalog_subset s C ix = Inl (ValueError_slice_length (len (force_index C ix)) n)) \<and>
         (len (force_index C ix) = n \<and> bool_mask (force_index C ix) = None \<longrightarrow>
            get_catalog_subset s C ix = Inl ValueError_not_boolean) \<and>
         (len (force_index C ix) = n \<and> bool_mask (force_index C ix) \<noteq> None \<longrightarrow>
            (\<forall>e. get_catalog_subset s C ix = Inl e \<longrightarrow> \<not> validation_error e))"
  using assms
  by (auto simp: get_catalog_subset_def Let_def from_columns_def
           split: option.splits sum.splits prod.splits if_splits
           dest: subset_columns_error set_columns_error)

theorem get_catalog_subset_validation_witness:
  "size_of flag_catalog = Some 4 \<and>
   get_catalog_subset empty_store flag_catalog (ListIndex [BoolS True, BoolS False])
     = Inl (ValueError_slice_length 2 4) \<and>
   get_catalog_subset empty_store flag_catalog (ListIndex [IntS 0, IntS 1, IntS 1, IntS 0])
     = Inl ValueError_not_boolean \<and>
   get_catalog_subset empty_store flag_catalog (ListIndex [BoolS True, BoolS False, BoolS True, BoolS False])
     \<noteq> Inl ValueError_not_boolean \<and>
   get_catalog_subset empty_store flag_catalog (ListIndex [BoolS True, BoolS False, BoolS True, BoolS False])
     \<noteq> Inl (ValueError_slice_length 4 4)"
proof -
  have f: "size_of flag_catalog = Some 4" by (simp add: flag_catalog_def size_of_def)
  have 1: "len (force_index flag_catalog (ListIndex [BoolS True, BoolS False])) = 2"
    by (simp add: force_index_def numpy_array_def)
  have 2: "len (force_index flag_catalog (ListIndex [IntS 0, IntS 1, IntS 1, IntS 0])) = 4 \<and>
           bool_mask (force_index flag_catalog (ListIndex [IntS 0, IntS 1, IntS 1, IntS 0])) = None"
    by (simp add: force_index_def numpy_array_def)
  have 3: "len (force_index flag_catalog (ListIndex [BoolS True, BoolS False, BoolS True, BoolS False])) = 4 \<and>
           bool_mask (force_index flag_catalog (ListIndex [BoolS True, BoolS False, BoolS True, BoolS False])) \<noteq> None"
    by (simp add: force_index_def numpy_array_def)
  have b: "get_catalog_subset empty_store flag_catalog (ListIndex [BoolS True, BoolS False])
     = Inl (ValueError_slice_length 2 4)"
    using get_catalog_subset_validation[OF f, of "ListIndex [BoolS True, BoolS False]" empty_store] 1
    by auto
  have c: "get_catalog_subset empty_store flag_catalog (ListIndex [IntS 0, IntS 1, IntS 1, IntS 0])
     = Inl ValueError_not_boolean"
    using get_catalog_subset_validation[OF f, of "ListIndex [IntS 0, IntS 1, IntS 1, IntS 0]" empty_store] 2
    by blast
  have d: "\<forall>e. get_catalog_subset empty_store flag_catalog
              (ListIndex [BoolS True, BoolS False, BoolS True, BoolS False]) = Inl e \<longrightarrow> \<not> validation_error e"
    using get_catalog_subset_validation[OF f,
        of "ListIndex [BoolS True, BoolS False, BoolS True, BoolS False]" empty_store] 3
    by blast
  show ?thesis using f b c d by auto
qed

section \<open>Reading and assigning columns\<close>

text \<open>
  C8, as amended. A name that is neither a key of the overrides nor a hard column fails
  with UnknownColumn. A key of the overrides gives a \<^verbatim>\<open>ColumnAccessor\<close> of the override.
  For a hard column that is not overridden, \<^verbatim>\<open>find_column\<close> finds the column function of
  the class, and the outcome is the outcome of that function on the catalog: a
  \<^verbatim>\<open>ColumnAccessor\<close> of the array it returns, or its exception.
\<close>

theorem getitem_str_resolution:
  "(name \<notin> fst ` set (overrides self) \<and> name \<notin> set (hardcolumns self) \<longrightarrow>
      getitem_str self name = Inl (KeyError_column name)) \<and>
   (name \<in> fst ` set (overrides self) \<longrightarrow>
      (\<exists>r. map_of (overrides self) name = Some r \<and> getitem_str self name = Inr (ColumnAccessor r))) \<and>
   (name \<notin> fst ` set (overrides self) \<and> name \<in> set (hardcolumns self) \<longrightarrow>
      (\<exists>getter. find_column (cls self) name = Inr getter \<and>
         getitem_str self name =
           (case getter (size_of self) of
              None \<Rightarrow> Inl (ColumnError name)
            | Some r \<Rightarrow> Inr (ColumnAccessor r))))"
proof (intro conjI impI)
  assume "name \<notin> fst ` set (overrides self) \<and> name \<notin> set (hardcolumns self)"
  then show "getitem_str self name = Inl (KeyError_column name)"
    by (simp add: getitem_str_def map_of_eq_None_iff[THEN iffD2])
next
  assume "name \<in> fst ` set (overrides self)"
  then obtain r where "map_of (overrides self) name = Some r"
    by (metis map_of_eq_None_iff not_Some_eq)
  then show "\<exists>r. map_of (overrides self) name = Some r \<and> getitem_str self name = Inr (ColumnAccessor r)"
    by (simp add: getitem_str_def)
next
  assume a: "name \<notin> fst ` set (overrides self) \<and> name \<in> set (hardcolumns self)"
  then have n: "map_of (overrides self) name = None" by (simp add: map_of_eq_None_iff)
  from a have "name \<in> declared_columns (cls self)"
    by (simp add: hardcolumns_def set_find_columns)
  then obtain g where g: "find_column (cls self) name = Inr g"
    using find_column_declared by blast
  show "\<exists>getter. find_column (cls self) name = Inr getter \<and>
         getitem_str self name =
           (case getter (size_of self) of
              None \<Rightarrow> Inl (ColumnError name)
            | Some r \<Rightarrow> Inr (ColumnAccessor r))"
    using a n g by (auto simp: getitem_str_def get_hardcolumn_def split: option.splits)
qed

theorem getitem_str_resolution_witness:
  "getitem_str flag_catalog ''DoesNotExist'' = Inl (KeyError_column ''DoesNotExist'') \<and>
   getitem_str flag_catalog ''Flag'' = Inr (ColumnAccessor (BoolArr [True, True, False, False])) \<and>
   getitem_str flag_catalog ''Selection'' = Inr (ColumnAccessor (BoolArr [True, True, True, True]))"
proof -
  have h: "hardcolumns flag_catalog = [''Selection'', ''Value'', ''Weight'']"
    by (simp add: hardcolumns_def flag_catalog_def hardcolumns_CatalogSource)
  have o: "fst ` set (overrides flag_catalog) = {''Flag''}" by (simp add: flag_catalog_def)
  have m: "map_of (overrides flag_catalog) ''Flag'' = Some (BoolArr [True, True, False, False])"
    by (simp add: flag_catalog_def)
  have g: "find_column (cls flag_catalog) ''Selection'' = Inr Selection"
    by (simp add: flag_catalog_def find_column_CatalogSource)
  have v: "Selection (size_of flag_catalog) = Some (BoolArr [True, True, True, True])"
    by (simp add: Selection_def ConstantArray_sized_def flag_catalog_def size_of_def numeral_eq_Suc)
  have a: "getitem_str flag_catalog ''DoesNotExist'' = Inl (KeyError_column ''DoesNotExist'')"
    using getitem_str_resolution[of "''DoesNotExist''" flag_catalog] h o by simp
  have b: "getitem_str flag_catalog ''Flag'' = Inr (ColumnAccessor (BoolArr [True, True, False, False]))"
    using getitem_str_resolution[of "''Flag''" flag_catalog] o m by auto
  have c: "getitem_str flag_catalog ''Selection'' = Inr (ColumnAccessor (BoolArr [True, True, True, True]))"
    using getitem_str_resolution[of "''Selection''" flag_catalog] h o g v by auto
  show ?thesis using a b c by simp
qed

text \<open>
  C8 as stated promises success for every hard column. On a \<^verbatim>\<open>CatalogSource\<close> whose size is
  \<^verbatim>\<open>NotImplemented\<close>, \<^verbatim>\<open>Weight\<close> is a hard column and reading it fails: the column function
  asks for a constant array of \<^verbatim>\<open>self.size\<close> rows.
\<close>

theorem hard_column_unsized_counterexample:
  "''Weight'' \<in> set (hardcolumns unsized_catalog) \<and>
   getitem_str unsized_catalog ''Weight'' = Inl (ColumnError ''Weight'')"
  by (simp add: unsized_catalog_def new_CatalogSource_def hardcolumns_def hardcolumns_CatalogSource
        getitem_str_def get_hardcolumn_def find_column_CatalogSource Weight_def ConstantArray_sized_def size_of_def)

text \<open>
  C2. A name that is a key of the overrides resolves to the override, whether or not the
  class has a hard column of that name, and materializes to it. \<^verbatim>\<open>CatalogSourceBase.__setitem__\<close>
  always writes the overrides. After \<^verbatim>\<open>self[name] = array\<close> on a catalog whose size is
  unknown or equal to the length of the array, \<^verbatim>\<open>self[name]\<close> materializes to that array.
\<close>

theorem override_precedence:
  "(\<forall>r. map_of (overrides self) name = Some r \<longrightarrow>
       getitem_str self name = Inr (ColumnAccessor r) \<and>
       ColumnAccessor_compute self (ColumnAccessor r) = r) \<and>
   map_of (overrides (CatalogSourceBase_setitem self name v)) name = Some (make_column v) \<and>
   (\<forall>a. value_array w = Some a \<and> (size_of self = None \<or> size_of self = Some (len a)) \<longrightarrow>
       (\<exists>self'. setitem self name w = (Inr (), self') \<and>
          map_of (overrides self') name = Some a \<and>
          getitem_str self' name = Inr (ColumnAccessor a) \<and>
          ColumnAccessor_compute self' (ColumnAccessor a) = a))"
  by (cases w)
     (auto simp: getitem_str_def ColumnAccessor_compute_def compute_def
        CatalogSourceBase_setitem_def AList.update_conv' setitem_def broadcast_def)

theorem override_precedence_witness:
  "''Weight'' \<in> set (hardcolumns flag_catalog) \<and>
   getitem_str flag_catalog ''Weight'' = Inr (ColumnAccessor (FloatArr [1, 1, 1, 1])) \<and>
   (\<exists>self'. setitem flag_catalog ''Weight'' (NumpyArray (FloatArr [2, 3, 5, 7])) = (Inr (), self') \<and>
      getitem_str self' ''Weight'' = Inr (ColumnAccessor (FloatArr [2, 3, 5, 7])) \<and>
      ColumnAccessor_compute self' (ColumnAccessor (FloatArr [2, 3, 5, 7])) = FloatArr [2, 3, 5, 7])"
proof -
  have 1: "''Weight'' \<in> set (hardcolumns flag_catalog)"
    by (simp add: hardcolumns_def flag_catalog_def hardcolumns_CatalogSource)
  have 2: "getitem_str flag_catalog ''Weight'' = Inr (ColumnAccessor (FloatArr [1, 1, 1, 1]))"
    by (simp add: getitem_str_def get_hardcolumn_def hardcolumns_def flag_catalog_def
          hardcolumns_CatalogSource find_column_CatalogSource Weight_def ConstantArray_sized_def size_of_def numeral_eq_Suc)
  have 3: "value_array (NumpyArray (FloatArr [2, 3, 5, 7])) = Some (FloatArr [2, 3, 5, 7]) \<and>
     (size_of flag_catalog = None \<or> size_of flag_catalog = Some (len (FloatArr [2, 3, 5, 7])))"
    by (simp add: flag_catalog_def size_of_def)
  from override_precedence[of flag_catalog "''Weight''" _ "NumpyArray (FloatArr [2, 3, 5, 7])"] 3
  have "\<exists>self'. setitem flag_catalog ''Weight'' (NumpyArray (FloatArr [2, 3, 5, 7])) = (Inr (), self') \<and>
          map_of (overrides self') ''Weight'' = Some (FloatArr [2, 3, 5, 7]) \<and>
          getitem_str self' ''Weight'' = Inr (ColumnAccessor (FloatArr [2, 3, 5, 7])) \<and>
          ColumnAccessor_compute self' (ColumnAccessor (FloatArr [2, 3, 5, 7])) = FloatArr [2, 3, 5, 7]"
    by blast
  with 1 2 show ?thesis by blast
qed

text \<open>
  C3. On a catalog of known local size \<open>n\<close>, assigning a scalar succeeds and the column
  then materializes to the constant array of \<open>n\<close> rows, the scalar repeated \<open>n\<close> times.
  On a catalog whose size is \<^verbatim>\<open>NotImplemented\<close> the assignment fails and leaves the catalog
  as it was.
\<close>

theorem scalar_broadcast:
  "(size_of self = Some n \<longrightarrow>
      (\<exists>self'. setitem self name (Scalar x) = (Inr (), self') \<and>
         getitem_str self' name = Inr (ColumnAccessor (ConstantArray x n)) \<and>
         ColumnAccessor_compute self' (ColumnAccessor (ConstantArray x n)) = ConstantArray x n \<and>
         len (ConstantArray x n) = n \<and> tolist (ConstantArray x n) = replicate n x)) \<and>
   (size_of self = None \<longrightarrow>
      setitem self name (Scalar x) = (Inl AssertionError_scalar_size, self))"
  by (auto simp: getitem_str_def ColumnAccessor_compute_def compute_def len_ConstantArray
        CatalogSourceBase_setitem_def AList.update_conv' setitem_def broadcast_def tolist_ConstantArray)

theorem scalar_broadcast_witness:
  "(\<exists>self'. setitem flag_catalog ''Flag'' (Scalar (BoolS True)) = (Inr (), self') \<and>
      getitem_str self' ''Flag'' = Inr (ColumnAccessor (BoolArr [True, True, True, True])) \<and>
      ColumnAccessor_compute self' (ColumnAccessor (BoolArr [True, True, True, True]))
        = BoolArr [True, True, True, True]) \<and>
   setitem unsized_catalog ''Flag'' (Scalar (BoolS True))
     = (Inl AssertionError_scalar_size, unsized_catalog)"
proof -
  have 1: "size_of flag_catalog = Some 4" by (simp add: flag_catalog_def size_of_def)
  have 2: "size_of unsized_catalog = None"
    by (simp add: unsized_catalog_def new_CatalogSource_def size_of_def)
  have 3: "ConstantArray (BoolS True) 4 = BoolArr [True, True, True, True]"
    by (simp add: numeral_eq_Suc)
  from scalar_broadcast[of flag_catalog 4 "''Flag''" "BoolS True"] 1
    scalar_broadcast[of unsized_catalog _ "''Flag''" "BoolS True"] 2
  show ?thesis unfolding 3 by blast
qed

text \<open>
  C10. A failing assignment changes nothing: whenever \<^verbatim>\<open>__setitem__\<close> raises, the catalog,
  and with it the entry of the name in the overrides, is as before the call. The two
  failures are a non-scalar value whose length differs from a known local size, and a
  scalar on a catalog of unknown size.
\<close>

theorem setitem_atomic:
  "(\<forall>e. fst (setitem self name v) = Inl e \<longrightarrow>
       snd (setitem self name v) = self \<and>
       map_of (overrides (snd (setitem self name v))) name = map_of (overrides self) name) \<and>
   (\<forall>n k. size_of self = Some n \<and> value_rows v = Some k \<and> k \<noteq> n \<longrightarrow>
       setitem self name v = (Inl (AssertionError_length n), self)) \<and>
   (size_of self = None \<longrightarrow>
       setitem self name (Scalar x) = (Inl AssertionError_scalar_size, self))"
  by (cases v) (auto simp: setitem_def broadcast_def split: option.splits)

theorem setitem_atomic_witness:
  "setitem flag_catalog ''Flag'' (NumpyArray (IntArr [1, 2])) = (Inl (AssertionError_length 4), flag_catalog) \<and>
   map_of (overrides (snd (setitem flag_catalog ''Flag'' (NumpyArray (IntArr [1, 2]))))) ''Flag''
     = Some (BoolArr [True, True, False, False]) \<and>
   map_of (overrides (snd (setitem flag_catalog ''X'' (NumpyArray (IntArr [1, 2]))))) ''X'' = None \<and>
   setitem unsized_catalog ''X'' (Scalar (IntS 1)) = (Inl AssertionError_scalar_size, unsized_catalog)"
proof -
  have 1: "size_of flag_catalog = Some 4 \<and> value_rows (NumpyArray (IntArr [1, 2])) = Some 2 \<and> (2::nat) \<noteq> 4"
    by (simp add: flag_catalog_def size_of_def)
  have 2: "size_of unsized_catalog = None"
    by (simp add: unsized_catalog_def new_CatalogSource_def size_of_def)
  have 3: "map_of (overrides flag_catalog) ''Flag'' = Some (BoolArr [True, True, False, False])"
    "map_of (overrides flag_catalog) ''X'' = None"
    by (simp_all add: flag_catalog_def)
  from setitem_atomic[of flag_catalog "''Flag''" "NumpyArray (IntArr [1, 2])"] 1
  have a: "setitem flag_catalog ''Flag'' (NumpyArray (IntArr [1, 2])) = (Inl (AssertionError_length 4), flag_catalog)"
    by blast
  from setitem_atomic[of flag_catalog "''X''" "NumpyArray (IntArr [1, 2])"] 1
  have b: "setitem flag_catalog ''X'' (NumpyArray (IntArr [1, 2])) = (Inl (AssertionError_length 4), flag_catalog)"
    by blast
  from setitem_atomic[of unsized_catalog "''X''" _ "IntS 1"] 2
  have c: "setitem unsized_catalog ''X'' (Scalar (IntS 1)) = (Inl AssertionError_scalar_size, unsized_catalog)"
    by blast
  show ?thesis using a b c 3 by simp
qed



text \<open>
  C9. \<^verbatim>\<open>copy\<close> on a catalog whose size is \<^verbatim>\<open>NotImplemented\<close> raises nothing: the value it
  returns is the \<^verbatim>\<open>ValueError\<close> object, and neither the catalog nor the store changes.
\<close>

theorem copy_returns_exception:
  "size_of self = None \<Longrightarrow> copy s self = Inr (ReturnedException ValueError_copy, self, s)"
  by (simp add: copy_def)

theorem copy_returns_exception_witness:
  "size_of unsized_catalog = None \<and>
   copy empty_store unsized_catalog = Inr (ReturnedException ValueError_copy, unsized_catalog, empty_store)"
proof -
  have 1: "size_of unsized_catalog = None"
    by (simp add: unsized_catalog_def new_CatalogSource_def size_of_def)
  from copy_returns_exception[OF 1, of empty_store] 1 show ?thesis by simp
qed

end
